theory Spec2Isabelle
  imports Complex_Main "HOL-Library.AList"
begin

section \<open>JavaScript values and documents\<close>

text \<open>
  The values that travel through the pipeline are JSON documents of the upstream API and
  documents of the store. A document (\<open>obj\<close>) is a map from property names to
  values; a property that is not there reads as \<open>None\<close> (JavaScript's
  \<open>undefined\<close>). An object nested in a value lists its properties in order and is
  read with \<open>map_of\<close>. \<open>JDate\<close> carries milliseconds since the epoch.
\<close>

datatype jsval =
    JNull
  | JBool bool
  | JNum rat
  | JStr string
  | JDate int
  | JArr "jsval list"
  | JObj "(string \<times> jsval) list"

type_synonym obj = "string \<Rightarrow> jsval option"

section \<open>Permissions (src/lib/permissions.js)\<close>






section \<open>Access-controlled search (src/models/CampaignStats.js)\<close>















section \<open>Upstream API client (src/lib/helpers/klaviyo-api.js)\<close>

text \<open>
  \<open>klaviyoRequest\<close> throws \<open>Error("Klaviyo API error: status body")\<close> on a response
  that is not ok; the other two errors are the ones the JavaScript runtime raises in the
  functions modelled below.
\<close>

datatype error =
    KlaviyoApiError nat string
  | TypeError
  | RangeError

text \<open>
  One response of a collection endpoint, as far as \<open>klaviyoGetAll\<close> reads it:
  \<open>data\<close> and \<open>included\<close> are \<open>Some\<close> when they are arrays,
  \<open>links_next\<close> is \<open>res.links.next\<close> when \<open>res.links\<close> is there.
\<close>

record ('a, 'b) page =
  data :: "'a list option"
  included :: "'b list option"
  links_next :: "string option"

definition arr :: "'a list option \<Rightarrow> 'a list" where
  "arr xs = (case xs of None \<Rightarrow> [] | Some ys \<Rightarrow> ys)"

text \<open>
  \<open>url = res.links && res.links.next ? res.links.next : null\<close>: an empty string is as
  falsy as a missing link.
\<close>

definition next_url :: "('a, 'b) page \<Rightarrow> string option" where
  "next_url res =
     (case links_next res of
        None \<Rightarrow> None
      | Some u \<Rightarrow> if u = [] then None else Some u)"

text \<open>
  The \<open>while (url)\<close> loop of \<open>klaviyoGetAll\<close>. \<open>get\<close> is \<open>klaviyoGet\<close> against
  the upstream. The loop has no other exit than a falsy \<open>url\<close> or a failed request, so
  the model is a partial function: \<open>None\<close> is a call that never returns. After the
  loop, \<open>firstResponse.links\<close> on the initial \<open>null\<close> raises a \<open>TypeError\<close>.
\<close>

partial_function (option) klaviyoGetAll_loop ::
  "(string \<Rightarrow> error + ('a, 'b) page) \<Rightarrow> string option \<Rightarrow> 'a list \<Rightarrow> 'b list
     \<Rightarrow> ('a, 'b) page option \<Rightarrow> (error + ('a, 'b) page) option" where
  "klaviyoGetAll_loop get url allData allIncluded firstResponse =
     (case url of
        Some u \<Rightarrow>
          (case get u of
             Inl e \<Rightarrow> Some (Inl e)
           | Inr res \<Rightarrow>
               klaviyoGetAll_loop get (next_url res)
                 (allData @ arr (data res))
                 (allIncluded @ arr (included res))
                 (case firstResponse of None \<Rightarrow> Some res | Some fr \<Rightarrow> Some fr))
      | None \<Rightarrow>
          (case firstResponse of
             None \<Rightarrow> Some (Inl TypeError)
           | Some fr \<Rightarrow> Some (Inr (fr\<lparr>data := Some allData, included := Some allIncluded\<rparr>))))"

definition klaviyoGetAll ::
  "(string \<Rightarrow> error + ('a, 'b) page) \<Rightarrow> string \<Rightarrow> (error + ('a, 'b) page) option" where
  "klaviyoGetAll get endpoint =
     klaviyoGetAll_loop get (if endpoint = [] then None else Some endpoint) [] [] None"

text \<open>
  A finite chain of pages: each page is what the upstream answers at the link of the page
  before it, and only the last one has no next link.
\<close>

fun pages_from :: "(string \<Rightarrow> error + ('a, 'b) page) \<Rightarrow> string \<Rightarrow> ('a, 'b) page list \<Rightarrow> bool" where
  "pages_from get u [] = False"
| "pages_from get u [p] = (get u = Inr p \<and> next_url p = None)"
| "pages_from get u (p # q # ps) =
     (get u = Inr p \<and>
      (case next_url p of None \<Rightarrow> False | Some u' \<Rightarrow> pages_from get u' (q # ps)))"

text \<open>An upstream whose every page links to a next page.\<close>

definition endless_upstream :: "string \<Rightarrow> error + (jsval, jsval) page" where
  "endless_upstream url =
     Inr \<lparr>data = Some [JStr url], included = None,
          links_next = Some ''https://a.klaviyo.com/api/campaigns?page[cursor]=next''\<rparr>"

section \<open>Rate-limited flow-definition fetcher (src/lib/helpers/flow-definitions.js)\<close>

text \<open>
  \<open>getFlowDefinitions(flowIds, opts, rateLimitOptions = {})\<close> with the default
  \<open>maxBurst = 3\<close>, which is how the sync calls it.
\<close>

definition batchSize :: nat where
  "batchSize = 3"

text \<open>
  The batch-size decision of one iteration, from the milliseconds elapsed since
  \<open>startTime\<close>, the requests made so far, and the length of the batch.
  \<open>elapsedSeconds\<close> and \<open>burstLimit\<close> are the source's quantities, exact: the
  elapsed time is a whole number of milliseconds, so rounding in the source's floating
  point cannot move \<open>Math.floor\<close> or the comparison across a whole number.
\<close>

definition elapsedSeconds :: "int \<Rightarrow> rat" where
  "elapsedSeconds ms = of_int ms / 1000"

definition burstLimit :: "int \<Rightarrow> rat" where
  "burstLimit ms = min 30 (3 * max 1 (elapsedSeconds ms))"

definition effectiveBatchSize :: "int \<Rightarrow> nat \<Rightarrow> nat \<Rightarrow> nat" where
  "effectiveBatchSize ms totalRequests batch_length =
     (if of_nat (totalRequests + batch_length) > burstLimit ms \<and> elapsedSeconds ms < 10
      then nat (max 1 \<lfloor>burstLimit ms - of_nat totalRequests\<rfloor>)
      else if elapsedSeconds ms \<ge> 10 then 1
      else batch_length)"

text \<open>
  \<open>flowIds.splice(i + effectiveBatchSize, 0, ...batch.slice(effectiveBatchSize))\<close>,
  done when the batch was cut short.
\<close>

definition requeue :: "string list \<Rightarrow> nat \<Rightarrow> nat \<Rightarrow> string list" where
  "requeue flowIds i e =
     (let batch = take batchSize (drop i flowIds) in
      if e < length batch
      then take (i + e) flowIds @ drop e batch @ drop (i + e) flowIds
      else flowIds)"

record 'd fetch_run =
  attempted :: "string list"
  fetched :: "'d list"

text \<open>
  The \<open>for\<close> loop. \<open>fetch\<close> is \<open>getFlowDefinition\<close>, which answers \<open>null\<close>
  (here \<open>None\<close>) when the request fails; \<open>clock k\<close> is \<open>Date.now() - startTime\<close>
  as read in iteration \<open>k\<close>. The delays between batches only decide what the clock
  reads. \<open>attempted\<close> records the ids handed to \<open>getFlowDefinition\<close>, in order;
  \<open>fetched\<close> is the source's \<open>results\<close>.
\<close>

function getFlowDefinitions_loop ::
  "(string \<Rightarrow> 'd option) \<Rightarrow> (nat \<Rightarrow> int) \<Rightarrow> string list \<Rightarrow> nat \<Rightarrow> nat \<Rightarrow> nat
     \<Rightarrow> 'd fetch_run \<Rightarrow> 'd fetch_run" where
  "getFlowDefinitions_loop fetch clock flowIds i k totalRequests run =
     (if i < length flowIds then
        let batch = take batchSize (drop i flowIds);
            e = effectiveBatchSize (clock k) totalRequests (length batch);
            actualBatch = take e batch
        in getFlowDefinitions_loop fetch clock (requeue flowIds i e) (i + batchSize) (Suc k)
             (totalRequests + length actualBatch)
             \<lparr>attempted = attempted run @ actualBatch,
              fetched = fetched run @ List.map_filter fetch actualBatch\<rparr>
      else run)"
  by pat_completeness auto
termination
proof (relation "measure (\<lambda>(fetch, clock, flowIds, i, k, totalRequests, run). length flowIds - i)")
  show "wf (measure (\<lambda>(fetch, clock, flowIds, i, k, totalRequests, run). length flowIds - i))"
    by simp
next
  fix fetch :: "string \<Rightarrow> 'd option" and clock :: "nat \<Rightarrow> int" and flowIds :: "string list"
    and i k totalRequests :: nat and run :: "'d fetch_run" and batch e actualBatch
  assume lt: "i < length flowIds"
    and b: "batch = take batchSize (drop i flowIds)"
    and e: "e = effectiveBatchSize (clock k) totalRequests (length batch)"
  have "1 \<le> e"
    unfolding e effectiveBatchSize_def using lt b by (auto simp: batchSize_def)
  moreover have "length batch \<le> 3"
    unfolding b by (simp add: batchSize_def)
  ultimately have "length (requeue flowIds i e) \<le> length flowIds + 2"
    unfolding requeue_def Let_def b by (auto simp: batchSize_def)
  with lt show "((fetch, clock, requeue flowIds i e, i + batchSize, Suc k,
                  totalRequests + length actualBatch,
                  \<lparr>attempted = attempted run @ actualBatch,
                   fetched = fetched run @ List.map_filter fetch actualBatch\<rparr>),
                 (fetch, clock, flowIds, i, k, totalRequests, run))
                \<in> measure (\<lambda>(fetch, clock, flowIds, i, k, totalRequests, run). length flowIds - i)"
    by (simp add: batchSize_def)
qed

definition getFlowDefinitions :: "(string \<Rightarrow> 'd option) \<Rightarrow> (nat \<Rightarrow> int) \<Rightarrow> string list \<Rightarrow> 'd fetch_run" where
  "getFlowDefinitions fetch clock flowIds =
     getFlowDefinitions_loop fetch clock flowIds 0 0 0 \<lparr>attempted = [], fetched = []\<rparr>"

text \<open>
  Five ids, every fetch succeeding, and a clock that reads one second per batch: the
  pace the source's own delay of \<open>burstWindowMs\<close> between batches produces.
\<close>

definition five_ids :: "string list" where
  "five_ids = [''f1'', ''f2'', ''f3'', ''f4'', ''f5'']"

definition one_second_per_batch :: "nat \<Rightarrow> int" where
  "one_second_per_batch k = 1000 * int k"

text \<open>An upstream that serves a collection in two pages.\<close>

definition page_one :: "(jsval, jsval) page" where
  "page_one = \<lparr>data = Some [JStr ''c1''], included = Some [JStr ''t1''],
               links_next = Some ''https://a.klaviyo.com/api/campaigns?page=2''\<rparr>"

definition page_two :: "(jsval, jsval) page" where
  "page_two = \<lparr>data = Some [JStr ''c2''], included = None, links_next = None\<rparr>"

definition two_page_upstream :: "string \<Rightarrow> error + (jsval, jsval) page" where
  "two_page_upstream url =
     (if url = ''campaigns'' then Inr page_one
      else if url = ''https://a.klaviyo.com/api/campaigns?page=2'' then Inr page_two
      else Inl (KlaviyoApiError 404 ''not found''))"

section \<open>Metadata merger (src/lib/helpers/stats-merger.js)\<close>

subsection \<open>Upstream documents\<close>

text \<open>
  The upstream documents are typed as far as the merger navigates them. A field read
  through optional chaining is an \<open>option\<close>, \<open>None\<close> standing for every way the
  chain can come out \<open>undefined\<close> or \<open>null\<close>; a field read without it is
  required. A tag, a segment and a list are read the same way: \<open>x.id\<close> and
  \<open>x.attributes?.name\<close>.
\<close>

record resource =
  res_id :: string
  attributes_name :: "string option"

text \<open>
  A campaign: \<open>id\<close>, \<open>attributes?.name\<close>, \<open>attributes?.audiences?.included\<close> and
  \<open>excluded\<close>, the ids of \<open>relationships?.tags?.data\<close>, and the four time stamps
  under \<open>attributes\<close>.
\<close>

record campaign =
  c_id :: string
  c_name :: "string option"
  c_included :: "string list option"
  c_excluded :: "string list option"
  c_tag_ids :: "string list option"
  c_send_time :: "string option"
  c_created_at :: "string option"
  c_scheduled_at :: "string option"
  c_updated_at :: "string option"

record campaign_groupings =
  send_channel :: string
  campaign_id :: string
  campaign_message_id :: string

text \<open>
  A row of the campaign values report: its \<open>groupings\<close>, its \<open>statistics\<close> object
  when it has one, and whatever other properties it carries (\<open>extra\<close>), which
  \<open>...r\<close> copies.
\<close>

record campaign_row =
  groupings :: campaign_groupings
  statistics :: "(string \<times> jsval) list option"
  extra :: obj

text \<open>
  A flow: \<open>id\<close>, the fields under \<open>attributes\<close>, and the ids of
  \<open>relationships?.tags?.data\<close>.
\<close>

record flow =
  fl_id :: string
  fl_name :: "string option"
  fl_status :: "string option"
  fl_archived :: "bool option"
  fl_created :: "string option"
  fl_updated :: "string option"
  fl_trigger_type :: "string option"
  fl_tag_ids :: "string list option"

record flow_groupings =
  flow_id :: string
  flow_message_id :: string
  flow_send_channel :: string

record flow_row =
  flow_groupings :: flow_groupings
  flow_statistics :: "jsval option"

subsection \<open>JavaScript idioms\<close>

text \<open>\<open>x || null\<close> on a string: the empty string is falsy.\<close>

definition or_null :: "string option \<Rightarrow> jsval" where
  "or_null s = (case s of None \<Rightarrow> JNull | Some x \<Rightarrow> if x = [] then JNull else JStr x)"

text \<open>\<open>x || false\<close> on a boolean.\<close>

definition or_false :: "bool option \<Rightarrow> jsval" where
  "or_false b = (case b of None \<Rightarrow> JBool False | Some x \<Rightarrow> JBool x)"

text \<open>\<open>for (const x of xs) m[key(x)] = val(x)\<close>: a later element overwrites an earlier one.\<close>

definition assign_all :: "('a \<Rightarrow> string) \<Rightarrow> ('a \<Rightarrow> 'v) \<Rightarrow> 'a list \<Rightarrow> (string \<Rightarrow> 'v option) \<Rightarrow> (string \<Rightarrow> 'v option)" where
  "assign_all key val xs m = fold (\<lambda>x m. m(key x \<mapsto> val x)) xs m"

text \<open>
  The name lookups hold \<open>x.attributes?.name || null\<close>; \<open>JNull\<close> entries, and ids
  without an entry, are dropped by \<open>ids.map(id => m[id]).filter(Boolean)\<close>.
\<close>

definition nameMap :: "resource list \<Rightarrow> (string \<Rightarrow> jsval option) \<Rightarrow> (string \<Rightarrow> jsval option)" where
  "nameMap xs m = assign_all res_id (\<lambda>x. or_null (attributes_name x)) xs m"

definition names_of :: "(string \<Rightarrow> jsval option) \<Rightarrow> string list \<Rightarrow> jsval list" where
  "names_of m ids =
     List.map_filter (\<lambda>i. case m i of Some (JStr n) \<Rightarrow> Some (JStr n) | _ \<Rightarrow> None) ids"

subsection \<open>Campaign merge\<close>

definition statistics_fields :: "string list" where
  "statistics_fields =
     [''opens'', ''open_rate'', ''bounced'', ''clicks'', ''clicks_unique'', ''click_rate'',
      ''delivered'', ''bounced_or_failed'', ''bounced_or_failed_rate'', ''delivery_rate'',
      ''failed'', ''failed_rate'', ''recipients'', ''opens_unique'', ''bounce_rate'',
      ''unsubscribe_rate'', ''unsubscribe_uniques'', ''unsubscribes'', ''spam_complaint_rate'',
      ''spam_complaints'', ''click_to_open_rate'', ''conversions'', ''conversion_uniques'',
      ''conversion_value'', ''conversion_rate'', ''average_order_value'',
      ''revenue_per_recipient'']"

text \<open>
  The object literal \<open>{ opens: 0, open_rate: 0, ... }\<close> before the spread, and
  \<open>{ ...base, ...src }\<close> on nested objects: a property of \<open>src\<close> replaces
  the property of \<open>base\<close> of the same name, and the others are added.
\<close>

definition default_statistics :: "(string \<times> jsval) list" where
  "default_statistics = map (\<lambda>f. (f, JNum 0)) statistics_fields"

definition spread :: "(string \<times> jsval) list \<Rightarrow> (string \<times> jsval) list \<Rightarrow> (string \<times> jsval) list" where
  "spread base src = AList.merge base src"

definition groupings_object :: "campaign_groupings \<Rightarrow> (string \<times> jsval) list" where
  "groupings_object g =
     [(''send_channel'', JStr (send_channel g)),
      (''campaign_id'', JStr (campaign_id g)),
      (''campaign_message_id'', JStr (campaign_message_id g))]"

text \<open>The row as the object that \<open>...r\<close> spreads.\<close>

definition row_object :: "campaign_row \<Rightarrow> obj" where
  "row_object r =
     (extra r)(''groupings'' \<mapsto> JObj (groupings_object (groupings r)))
       ++ (case statistics r of None \<Rightarrow> Map.empty | Some s \<Rightarrow> [''statistics'' \<mapsto> JObj s])"

definition is_email_or_sms :: "campaign_row \<Rightarrow> bool" where
  "is_email_or_sms r =
     (send_channel (groupings r) = ''email'' \<or> send_channel (groupings r) = ''sms'')"

definition str_array :: "string list \<Rightarrow> jsval" where
  "str_array xs = JArr (map JStr xs)"

text \<open>The body of the \<open>.map\<close> callback, for one row.\<close>

definition mergeCampaignRow ::
  "(string \<Rightarrow> campaign option) \<Rightarrow> (string \<Rightarrow> jsval option) \<Rightarrow> (string \<Rightarrow> jsval option)
     \<Rightarrow> campaign_row \<Rightarrow> obj" where
  "mergeCampaignRow campaignMap tagNameMap audienceNameMap r =
     (let campaign = campaignMap (campaign_id (groupings r));
          tagIds = (case campaign of None \<Rightarrow> [] | Some c \<Rightarrow> arr (c_tag_ids c));
          includedAudienceIds = (case campaign of None \<Rightarrow> [] | Some c \<Rightarrow> arr (c_included c));
          excludedAudienceIds = (case campaign of None \<Rightarrow> [] | Some c \<Rightarrow> arr (c_excluded c));
          stats = spread default_statistics (case statistics r of None \<Rightarrow> [] | Some s \<Rightarrow> s);
          attr = (\<lambda>f. case campaign of None \<Rightarrow> JNull | Some c \<Rightarrow> or_null (f c))
      in (row_object r)
           (''statistics'' \<mapsto> JObj stats,
            ''campaign_name'' \<mapsto> attr c_name,
            ''included_audiences'' \<mapsto> str_array includedAudienceIds,
            ''excluded_audiences'' \<mapsto> str_array excludedAudienceIds,
            ''included_audiences_names'' \<mapsto> JArr (names_of audienceNameMap includedAudienceIds),
            ''excluded_audiences_names'' \<mapsto> JArr (names_of audienceNameMap excludedAudienceIds),
            ''tagIds'' \<mapsto> str_array tagIds,
            ''tagNames'' \<mapsto> JArr (names_of tagNameMap tagIds),
            ''send_time'' \<mapsto> attr c_send_time,
            ''created_at'' \<mapsto> attr c_created_at,
            ''scheduled_at'' \<mapsto> attr c_scheduled_at,
            ''updated_at'' \<mapsto> attr c_updated_at))"

definition mergeCampaignStatsWithMeta ::
  "campaign_row list \<Rightarrow> campaign list \<Rightarrow> campaign list \<Rightarrow> resource list \<Rightarrow> resource list
     \<Rightarrow> resource list \<Rightarrow> obj list" where
  "mergeCampaignStatsWithMeta rows campaigns smsCampaigns segments lists' tags =
     (let campaignMap = assign_all c_id (\<lambda>c. c) smsCampaigns
                          (assign_all c_id (\<lambda>c. c) campaigns Map.empty);
          tagNameMap = nameMap tags Map.empty;
          audienceNameMap = nameMap lists' (nameMap segments Map.empty)
      in map (mergeCampaignRow campaignMap tagNameMap audienceNameMap)
           (filter is_email_or_sms rows))"




text \<open>The send channel of a merged campaign record.\<close>

definition channel_of :: "obj \<Rightarrow> string option" where
  "channel_of rec =
     (case rec ''groupings'' of
        Some (JObj g) \<Rightarrow> (case map_of g ''send_channel'' of Some (JStr c) \<Rightarrow> Some c | _ \<Rightarrow> None)
      | _ \<Rightarrow> None)"

subsection \<open>Flow merge\<close>

text \<open>
  The object literal of the \<open>.map\<close> callback up to \<open>statistics\<close>, before
  \<open>...messageDetails\<close>. A row without \<open>statistics\<close> leaves the property
  undefined.
\<close>

definition flowFields ::
  "(string \<Rightarrow> flow option) \<Rightarrow> (string \<Rightarrow> jsval option) \<Rightarrow> flow_row \<Rightarrow> obj" where
  "flowFields flowMap tagNameMap stat =
     (let fl = flowMap (flow_id (flow_groupings stat));
          tagIds = (case fl of None \<Rightarrow> [] | Some f \<Rightarrow> arr (fl_tag_ids f));
          attr = (\<lambda>f. case fl of None \<Rightarrow> JNull | Some x \<Rightarrow> or_null (f x))
      in Map.empty
           (''flow_id'' \<mapsto> JStr (flow_id (flow_groupings stat)),
            ''flow_message_id'' \<mapsto> JStr (flow_message_id (flow_groupings stat)),
            ''send_channel'' \<mapsto> JStr (flow_send_channel (flow_groupings stat)),
            ''flow_name'' \<mapsto> attr fl_name,
            ''flow_status'' \<mapsto> attr fl_status,
            ''flow_archived'' \<mapsto> (case fl of None \<Rightarrow> JBool False | Some x \<Rightarrow> or_false (fl_archived x)),
            ''flow_created'' \<mapsto> attr fl_created,
            ''flow_updated'' \<mapsto> attr fl_updated,
            ''flow_trigger_type'' \<mapsto> attr fl_trigger_type,
            ''tagIds'' \<mapsto> str_array tagIds,
            ''tagNames'' \<mapsto> JArr (names_of tagNameMap tagIds))
          ++ (case flow_statistics stat of None \<Rightarrow> Map.empty | Some s \<Rightarrow> [''statistics'' \<mapsto> s]))"

text \<open>
  \<open>messageDetailsMap[stat.groupings.flow_message_id] || {}\<close>, spread last over the
  literal.
\<close>

definition mergeFlowRow ::
  "(string \<Rightarrow> flow option) \<Rightarrow> (string \<Rightarrow> jsval option) \<Rightarrow> (string \<Rightarrow> obj option) \<Rightarrow> flow_row \<Rightarrow> obj" where
  "mergeFlowRow flowMap tagNameMap messageDetailsMap stat =
     (let messageDetails = (case messageDetailsMap (flow_message_id (flow_groupings stat)) of
                              None \<Rightarrow> Map.empty | Some details \<Rightarrow> details)
      in flowFields flowMap tagNameMap stat ++ messageDetails)"

definition mergeFlowStatsWithMeta ::
  "flow_row list \<Rightarrow> flow list \<Rightarrow> resource list \<Rightarrow> (string \<Rightarrow> obj option) \<Rightarrow> obj list" where
  "mergeFlowStatsWithMeta rows flows tags messageDetailsMap =
     (let flowMap = assign_all fl_id (\<lambda>f. f) flows Map.empty;
          tagNameMap = nameMap tags Map.empty
      in map (mergeFlowRow flowMap tagNameMap messageDetailsMap) rows)"

section \<open>Flow-definition message extractor (src/lib/helpers/flow-definitions.js)\<close>

text \<open>
  A flow definition as the extractor reads it. \<open>message\<close> is \<open>x.data?.message\<close>
  of an action, of the main action of an A/B test, or of a variation.
\<close>

record message =
  msg_id :: "string option"
  msg_name :: "string option"
  from_email :: "string option"
  from_label :: "string option"
  subject_line :: "string option"
  preview_text :: "string option"
  template_id :: "string option"
  transactional :: "bool option"
  smart_sending_enabled :: "bool option"

record variation =
  variation_id :: string
  variation_message :: "message option"

record ab_experiment =
  exp_id :: "string option"
  exp_name :: "string option"
  winner_metric :: "string option"
  variations :: "variation list option"
  allocations :: "(string \<Rightarrow> rat option) option"

text \<open>
  \<open>action.data\<close>: its \<open>message\<close>, the message of \<open>main_action\<close>
  (\<open>main_action?.data?.message\<close>), \<open>current_experiment\<close> and
  \<open>experiment_status\<close>.
\<close>

record action_data =
  ad_message :: "message option"
  ad_main_action_message :: "message option"
  ad_current_experiment :: "ab_experiment option"
  ad_experiment_status :: "string option"

record action =
  a_type :: "string option"
  a_data :: "action_data option"

text \<open>\<open>flowDef?.data?.attributes?.definition?.actions\<close>.\<close>

record flow_definition =
  actions :: "action list option"

text \<open>
  \<open>extractMessageDetails(x)\<close>, given \<open>x.data.message\<close> when \<open>x\<close>,
  \<open>x.data\<close> and the message are all there, \<open>None\<close> otherwise.
\<close>

definition extractMessageDetails :: "message option \<Rightarrow> obj" where
  "extractMessageDetails m =
     (case m of
        None \<Rightarrow> Map.empty
      | Some message \<Rightarrow>
          [''message_name'' \<mapsto> or_null (msg_name message),
           ''message_from_email'' \<mapsto> or_null (from_email message),
           ''message_from_label'' \<mapsto> or_null (from_label message),
           ''message_subject_line'' \<mapsto> or_null (subject_line message),
           ''message_preview_text'' \<mapsto> or_null (preview_text message),
           ''message_template_id'' \<mapsto> or_null (template_id message),
           ''message_transactional'' \<mapsto> or_false (transactional message),
           ''message_smart_sending_enabled'' \<mapsto> or_false (smart_sending_enabled message)])"

definition variation_details :: "ab_experiment \<Rightarrow> variation \<Rightarrow> jsval" where
  "variation_details ex v =
     (let nm = (\<lambda>f. case variation_message v of None \<Rightarrow> JNull | Some m \<Rightarrow> or_null (f m)) in
      JObj [(''variation_id'', JStr (variation_id v)),
            (''variation_name'', nm msg_name),
            (''allocation'',
               JNum (case allocations ex of
                       None \<Rightarrow> 0
                     | Some al \<Rightarrow> (case al (variation_id v) of None \<Rightarrow> 0 | Some w \<Rightarrow> w))),
            (''message_name'', nm msg_name),
            (''message_subject_line'', nm subject_line),
            (''message_template_id'', nm template_id)])"

definition no_experiment :: obj where
  "no_experiment = [''has_experiment'' \<mapsto> JBool False]"

definition extractExperimentDetails :: "action \<Rightarrow> obj" where
  "extractExperimentDetails act =
     (if a_type act \<noteq> Some ''ab-test'' then no_experiment
      else case a_data act of
        None \<Rightarrow> no_experiment
      | Some d \<Rightarrow>
          (case ad_current_experiment d of
             None \<Rightarrow> no_experiment
           | Some ex \<Rightarrow>
               [''has_experiment'' \<mapsto> JBool True,
                ''experiment_id'' \<mapsto> or_null (exp_id ex),
                ''experiment_name'' \<mapsto> or_null (exp_name ex),
                ''experiment_status'' \<mapsto> or_null (ad_experiment_status d),
                ''experiment_winner_metric'' \<mapsto> or_null (winner_metric ex),
                ''experiment_variations'' \<mapsto>
                   JArr (map (variation_details ex) (arr (variations ex)))]))"

text \<open>A truthy \<open>message?.id\<close>: there, and not the empty string.\<close>

definition truthy_id :: "message option \<Rightarrow> string option" where
  "truthy_id m =
     (case m of
        None \<Rightarrow> None
      | Some message \<Rightarrow>
          (case msg_id message of None \<Rightarrow> None | Some i \<Rightarrow> if i = [] then None else Some i))"

text \<open>
  The three \<open>if\<close> statements of the loop body of \<open>buildMessageDetailsMap\<close>, in the
  source's order; each may write its entry.
\<close>

definition put_message :: "message option \<Rightarrow> obj \<Rightarrow> (string \<Rightarrow> obj option) \<Rightarrow> (string \<Rightarrow> obj option)" where
  "put_message m experimentDetails messageMap =
     (case truthy_id m of
        None \<Rightarrow> messageMap
      | Some messageId \<Rightarrow> messageMap(messageId \<mapsto> extractMessageDetails m ++ experimentDetails))"

definition put_action :: "action \<Rightarrow> (string \<Rightarrow> obj option) \<Rightarrow> (string \<Rightarrow> obj option)" where
  "put_action act messageMap =
     (let d = a_data act;
          m1 = put_message (case d of None \<Rightarrow> None | Some x \<Rightarrow> ad_message x)
                 (extractExperimentDetails act) messageMap;
          m2 = (if a_type act = Some ''ab-test''
                then put_message (case d of None \<Rightarrow> None | Some x \<Rightarrow> ad_main_action_message x)
                       (extractExperimentDetails act) m1
                else m1)
      in if a_type act = Some ''ab-test''
         then (case (case d of None \<Rightarrow> None
                     | Some x \<Rightarrow> (case ad_current_experiment x of None \<Rightarrow> None | Some ex \<Rightarrow> variations ex)) of
                 None \<Rightarrow> m2
               | Some vs \<Rightarrow>
                   fold (\<lambda>v. put_message (variation_message v) (extractExperimentDetails act)) vs m2)
         else m2)"

definition buildMessageDetailsMap :: "flow_definition list \<Rightarrow> (string \<Rightarrow> obj option)" where
  "buildMessageDetailsMap flowDefinitions =
     fold (\<lambda>flowDef messageMap.
             case actions flowDef of
               None \<Rightarrow> messageMap
             | Some acts \<Rightarrow> fold put_action acts messageMap)
       flowDefinitions Map.empty"







section \<open>Persistence of the merged records (src/lib/helpers/stats-sync.js)\<close>

text \<open>
  \<open>Model.updateOne(filter, { $set: upd }, { upsert: true })\<close> on the documents of a
  collection. The first document that matches the filter has every field of \<open>upd\<close>
  set and its other fields left as they are; when none matches, a document is inserted.
  In both callers \<open>upd\<close> holds every field the filter names, so the inserted
  document is \<open>upd\<close>.
\<close>

fun updateOne :: "(obj \<Rightarrow> bool) \<Rightarrow> obj \<Rightarrow> obj list \<Rightarrow> obj list" where
  "updateOne flt upd [] = [upd]"
| "updateOne flt upd (d # ds) = (if flt d then (d ++ upd) # ds else d # updateOne flt upd ds)"

text \<open>\<open>x.groupings.campaign_id\<close> of a merged record or a stored document.\<close>

definition campaign_id_of :: "obj \<Rightarrow> jsval option" where
  "campaign_id_of d =
     (case d ''groupings'' of Some (JObj g) \<Rightarrow> map_of g ''campaign_id'' | _ \<Rightarrow> None)"

text \<open>
  The filter \<open>{ store_id: storeId, "groupings.campaign_id": stat.groupings.campaign_id }\<close>,
  as the pair of values a document must have, and the \<open>$set\<close> object
  \<open>{ ...stat, store_id: storeId, store_public_id: storePublicId }\<close>.
\<close>

definition campaign_key :: "obj \<Rightarrow> jsval option \<times> jsval option" where
  "campaign_key d = (d ''store_id'', campaign_id_of d)"

definition campaign_filter :: "string \<Rightarrow> obj \<Rightarrow> jsval option \<times> jsval option" where
  "campaign_filter storeId stat = (Some (JStr storeId), campaign_id_of stat)"

definition campaign_set :: "string \<Rightarrow> string \<Rightarrow> obj \<Rightarrow> obj" where
  "campaign_set storeId storePublicId stat =
     stat(''store_id'' \<mapsto> JStr storeId, ''store_public_id'' \<mapsto> JStr storePublicId)"

definition upsertCampaignStats :: "obj list \<Rightarrow> string \<Rightarrow> string \<Rightarrow> obj list \<Rightarrow> obj list" where
  "upsertCampaignStats merged storeId storePublicId coll =
     fold (\<lambda>stat. updateOne (\<lambda>d. campaign_key d = campaign_filter storeId stat)
                     (campaign_set storeId storePublicId stat))
       merged coll"

text \<open>
  The flow filter \<open>{ store, flow_id, flow_message_id, send_channel }\<close> and the
  \<open>$set\<close> object \<open>{ ...stat, store, store_public_id, last_updated: new Date() }\<close>.
  \<open>clock k\<close> is what \<open>new Date()\<close> reads for the record at index \<open>k\<close>.
\<close>

definition flow_key :: "obj \<Rightarrow> jsval option \<times> jsval option \<times> jsval option \<times> jsval option" where
  "flow_key d = (d ''store'', d ''flow_id'', d ''flow_message_id'', d ''send_channel'')"

definition flow_filter :: "string \<Rightarrow> obj \<Rightarrow> jsval option \<times> jsval option \<times> jsval option \<times> jsval option" where
  "flow_filter storeId stat =
     (Some (JStr storeId), stat ''flow_id'', stat ''flow_message_id'', stat ''send_channel'')"

definition flow_set :: "string \<Rightarrow> string \<Rightarrow> int \<Rightarrow> obj \<Rightarrow> obj" where
  "flow_set storeId storePublicId t stat =
     stat(''store'' \<mapsto> JStr storeId, ''store_public_id'' \<mapsto> JStr storePublicId,
          ''last_updated'' \<mapsto> JDate t)"

definition upsertFlowStats ::
  "obj list \<Rightarrow> string \<Rightarrow> string \<Rightarrow> (nat \<Rightarrow> int) \<Rightarrow> obj list \<Rightarrow> obj list" where
  "upsertFlowStats merged storeId storePublicId clock coll =
     fold (\<lambda>(k, stat). updateOne (\<lambda>d. flow_key d = flow_filter storeId stat)
                          (flow_set storeId storePublicId (clock k) stat))
       (enumerate 0 merged) coll"

text \<open>
  Both loops are a sequence of keyed upserts: each step addresses the first document
  whose key fields have the given values.
\<close>

definition upsertAll :: "(obj \<Rightarrow> 'k) \<Rightarrow> ('k \<times> obj) list \<Rightarrow> obj list \<Rightarrow> obj list" where
  "upsertAll key ops coll = fold (\<lambda>(K, u). updateOne (\<lambda>d. key d = K) u) ops coll"

definition overlay :: "('k \<times> obj) list \<Rightarrow> obj \<Rightarrow> obj" where
  "overlay ops d = fold (\<lambda>(K, u) d. d ++ u) ops d"



section \<open>Sync orchestrator (src/lib/helpers/stats-sync.js)\<close>

text \<open>
  The account row (src/unnamed/part_003, the Store model). Times are milliseconds since
  the epoch. The schema gives \<open>last_dashboard_sync\<close> no default: until a sync has
  written it the field is absent and reads as \<open>undefined\<close> (\<open>DateUnset\<close>),
  unless a \<open>null\<close> was stored (\<open>DateNull\<close>).
\<close>

datatype date_field = DateUnset | DateNull | DateAt int

record store =
  store_id :: string
  public_id :: string
  last_dashboard_sync :: date_field
  is_updating_dashboard :: bool
  tagNames :: "string list"
  flow_date_times :: "int list"

record database =
  stores_coll :: "store list"
  campaign_stats :: "obj list"
  flow_stats :: "obj list"

fun update_first :: "('a \<Rightarrow> bool) \<Rightarrow> ('a \<Rightarrow> 'a) \<Rightarrow> 'a list \<Rightarrow> 'a list" where
  "update_first p f [] = []"
| "update_first p f (x # xs) = (if p x then f x # xs else x # update_first p f xs)"

text \<open>
  \<open>Store.findByIdOrPublicIdAndUpdate(id, update, { new: true })\<close>: the row with that
  \<open>_id\<close>, or else the row with that \<open>public_id\<close>; the updated rows and the updated
  document (\<open>null\<close> when there is no such row).
\<close>

definition findByIdOrPublicIdAndUpdate ::
  "string \<Rightarrow> (store \<Rightarrow> store) \<Rightarrow> store list \<Rightarrow> store list \<times> store option" where
  "findByIdOrPublicIdAndUpdate i f rows =
     (if \<exists>r \<in> set rows. store_id r = i
      then (update_first (\<lambda>r. store_id r = i) f rows,
            map_option f (find (\<lambda>r. store_id r = i) rows))
      else (update_first (\<lambda>r. public_id r = i) f rows,
            map_option f (find (\<lambda>r. public_id r = i) rows)))"

text \<open>
  The eight requests of the fan-out. Each promise is fulfilled, rejected, or never
  settles (\<open>klaviyoGetAll\<close> and \<open>klaviyoReportPost\<close> may follow next links for ever).
\<close>

datatype 'a promise = Fulfilled 'a | Rejected error | Pending

record flow_report =
  report_results :: "flow_row list"
  report_date_times :: "int list option"

record fanout =
  f_campaigns :: "campaign list promise"
  f_smsCampaigns :: "campaign list promise"
  f_tags :: "resource list promise"
  f_flows :: "flow list promise"
  f_segments :: "resource list promise"
  f_lists :: "resource list promise"
  f_campaignValuesReports :: "campaign_row list promise"
  f_flowSeriesReports :: "flow_report promise"

datatype fetch_id =
  Campaigns | SmsCampaigns | Tags | Flows | Segments | Lists
  | CampaignValuesReports | FlowSeriesReports

definition all_fetches :: "fetch_id list" where
  "all_fetches =
     [Campaigns, SmsCampaigns, Tags, Flows, Segments, Lists, CampaignValuesReports,
      FlowSeriesReports]"

definition rejected_with :: "'a promise \<Rightarrow> error option" where
  "rejected_with p = (case p of Rejected e \<Rightarrow> Some e | _ \<Rightarrow> None)"

definition fulfilled_with :: "'a promise \<Rightarrow> 'a option" where
  "fulfilled_with p = (case p of Fulfilled v \<Rightarrow> Some v | _ \<Rightarrow> None)"

fun rejection :: "fanout \<Rightarrow> fetch_id \<Rightarrow> error option" where
  "rejection fo Campaigns = rejected_with (f_campaigns fo)"
| "rejection fo SmsCampaigns = rejected_with (f_smsCampaigns fo)"
| "rejection fo Tags = rejected_with (f_tags fo)"
| "rejection fo Flows = rejected_with (f_flows fo)"
| "rejection fo Segments = rejected_with (f_segments fo)"
| "rejection fo Lists = rejected_with (f_lists fo)"
| "rejection fo CampaignValuesReports = rejected_with (f_campaignValuesReports fo)"
| "rejection fo FlowSeriesReports = rejected_with (f_flowSeriesReports fo)"

record fetched_data =
  campaigns_data :: "campaign list"
  smsCampaigns_data :: "campaign list"
  tags_data :: "resource list"
  flows_data :: "flow list"
  segments_data :: "resource list"
  lists_data :: "resource list"
  campaignValuesReports_results :: "campaign_row list"
  flowSeriesReports :: flow_report

definition all_fulfilled :: "fanout \<Rightarrow> fetched_data option" where
  "all_fulfilled fo =
     Option.bind (fulfilled_with (f_campaigns fo)) (\<lambda>c.
     Option.bind (fulfilled_with (f_smsCampaigns fo)) (\<lambda>s.
     Option.bind (fulfilled_with (f_tags fo)) (\<lambda>t.
     Option.bind (fulfilled_with (f_flows fo)) (\<lambda>f.
     Option.bind (fulfilled_with (f_segments fo)) (\<lambda>sg.
     Option.bind (fulfilled_with (f_lists fo)) (\<lambda>l.
     Option.bind (fulfilled_with (f_campaignValuesReports fo)) (\<lambda>cv.
     Option.bind (fulfilled_with (f_flowSeriesReports fo)) (\<lambda>fs.
       Some \<lparr>campaigns_data = c, smsCampaigns_data = s, tags_data = t, flows_data = f,
             segments_data = sg, lists_data = l, campaignValuesReports_results = cv,
             flowSeriesReports = fs\<rparr>))))))))"

text \<open>
  \<open>await Promise.all([...])\<close>. It throws the reason of the promise that rejects first,
  whatever the others do; \<open>settle_order\<close> lists the requests in the order in which
  they settle (a request it does not list settles after those it lists). With no
  rejection it resumes once all eight are fulfilled, and never if one stays pending.
\<close>

datatype 'a awaited = Resumed 'a | Thrown error | Never

definition promise_all :: "fanout \<Rightarrow> fetch_id list \<Rightarrow> fetched_data awaited" where
  "promise_all fo settle_order =
     (case List.map_filter (rejection fo) (settle_order @ all_fetches) of
        e # _ \<Rightarrow> Thrown e
      | [] \<Rightarrow> (case all_fulfilled fo of Some v \<Rightarrow> Resumed v | None \<Rightarrow> Never))"

text \<open>What the function does to the outside, in order.\<close>

datatype effect =
    StoreUpdate
  | UpstreamFetch fetch_id
  | FlowDefinitionFetch string
  | CampaignStatsUpsert
  | FlowStatsUpsert

datatype sync_outcome = Returned "store option" | Threw error | NeverReturns

record sync_result =
  res_outcome :: sync_outcome
  res_db :: database
  res_trace :: "effect list"

text \<open>
  Everything the function reads from outside its arguments and the database: the clock,
  the upstream's answers to the fan-out, and the flow-definition endpoint.
\<close>

record environment =
  env_now :: int
  env_fanout :: fanout
  env_settle_order :: "fetch_id list"
  env_flow_fetch :: "string \<Rightarrow> flow_definition option"
  env_flow_clock :: "nat \<Rightarrow> int"
  env_persist_time :: int
  env_upsert_clock :: "nat \<Rightarrow> int"

definition FRESHNESS_THRESHOLD_MS :: int where
  "FRESHNESS_THRESHOLD_MS = 1 * 60 * 1000"

text \<open>\<open>[...new Set(xs)]\<close>: the first occurrence of each element, in order.\<close>

fun unique :: "'a list \<Rightarrow> 'a list" where
  "unique [] = []"
| "unique (x # xs) = x # unique (filter (\<lambda>y. y \<noteq> x) xs)"

text \<open>\<open>tags.data.map(tag => tag.attributes?.name).filter(Boolean)\<close>.\<close>

definition tag_names :: "resource list \<Rightarrow> string list" where
  "tag_names tags =
     List.map_filter
       (\<lambda>t. case attributes_name t of None \<Rightarrow> None | Some n \<Rightarrow> if n = [] then None else Some n)
       tags"

text \<open>The body of the \<open>try\<close> block after \<open>Promise.all\<close> has resumed.\<close>

definition persist :: "environment \<Rightarrow> database \<Rightarrow> store \<Rightarrow> fetched_data \<Rightarrow> effect list \<Rightarrow> sync_result" where
  "persist env db1 st v tr =
     (let merged = mergeCampaignStatsWithMeta (campaignValuesReports_results v) (campaigns_data v)
                     (smsCampaigns_data v) (segments_data v) (lists_data v) (tags_data v);
          flowRows = report_results (flowSeriesReports v);
          uniqueFlowIds = unique (map (\<lambda>r. flow_id (flow_groupings r)) flowRows);
          run = getFlowDefinitions (env_flow_fetch env) (env_flow_clock env) uniqueFlowIds;
          messageDetailsMap = buildMessageDetailsMap (fetched run);
          mergedFlows = mergeFlowStatsWithMeta flowRows (flows_data v) (tags_data v) messageDetailsMap;
          flowDateTimes = arr (report_date_times (flowSeriesReports v));
          (rows2, updatedStore) =
            findByIdOrPublicIdAndUpdate (store_id st)
              (\<lambda>r. r\<lparr>last_dashboard_sync := DateAt (env_persist_time env),
                      tagNames := tag_names (tags_data v),
                      is_updating_dashboard := False,
                      flow_date_times := flowDateTimes\<rparr>)
              (stores_coll db1)
      in \<lparr>res_outcome = Returned updatedStore,
          res_db = \<lparr>stores_coll = rows2,
                    campaign_stats = upsertCampaignStats merged (store_id st) (public_id st)
                                       (campaign_stats db1),
                    flow_stats = upsertFlowStats mergedFlows (store_id st) (public_id st)
                                   (env_upsert_clock env) (flow_stats db1)\<rparr>,
          res_trace = tr @ map FlowDefinitionFetch (attempted run) @ [StoreUpdate]
                        @ map (\<lambda>_. CampaignStatsUpsert) merged
                        @ map (\<lambda>_. FlowStatsUpsert) mergedFlows\<rparr>)"

text \<open>
  \<open>store.last_dashboard_sync ? new Date(store.last_dashboard_sync).getTime() : 0\<close>.
\<close>

definition lastSync_of :: "store \<Rightarrow> int" where
  "lastSync_of st = (case last_dashboard_sync st of DateAt t \<Rightarrow> t | _ \<Rightarrow> 0)"

text \<open>
  \<open>date ? date.toISOString() : new Date(store.last_dashboard_sync).toISOString()\<close>,
  as the time it denotes. A \<open>date\<close> the caller passes is a valid date.
  \<open>new Date(undefined)\<close> is an invalid date, on which \<open>toISOString\<close> raises a
  \<open>RangeError\<close>; \<open>new Date(null)\<close> is the epoch.
\<close>

definition fromDate_of :: "store \<Rightarrow> int option \<Rightarrow> error + int" where
  "fromDate_of st date =
     (case date of
        Some d \<Rightarrow> Inr d
      | None \<Rightarrow>
          (case last_dashboard_sync st of
             DateUnset \<Rightarrow> Inl RangeError
           | DateNull \<Rightarrow> Inr 0
           | DateAt t \<Rightarrow> Inr t))"

text \<open>
  \<open>klaviyoUpdateStats(store, date = null)\<close>. \<open>st\<close> is the account document the caller
  loaded, \<open>db0\<close> the database at the call.
\<close>

definition klaviyoUpdateStats :: "environment \<Rightarrow> database \<Rightarrow> store \<Rightarrow> int option \<Rightarrow> sync_result" where
  "klaviyoUpdateStats env db0 st date =
     (if is_updating_dashboard st \<or> env_now env - lastSync_of st < FRESHNESS_THRESHOLD_MS
      then \<lparr>res_outcome = Returned (Some st), res_db = db0, res_trace = []\<rparr>
      else
        case fromDate_of st date of
          Inl e \<Rightarrow> \<lparr>res_outcome = Threw e, res_db = db0, res_trace = []\<rparr>
        | Inr fromDate \<Rightarrow>
            let db1 = db0\<lparr>stores_coll :=
                        fst (findByIdOrPublicIdAndUpdate (store_id st)
                               (\<lambda>r. r\<lparr>is_updating_dashboard := True\<rparr>) (stores_coll db0))\<rparr>;
                tr = StoreUpdate # map UpstreamFetch all_fetches
            in (case promise_all (env_fanout env) (env_settle_order env) of
                 Never \<Rightarrow> \<lparr>res_outcome = NeverReturns, res_db = db1, res_trace = tr\<rparr>
               | Thrown e \<Rightarrow>
                   \<lparr>res_outcome = Threw e,
                    res_db = db1\<lparr>stores_coll :=
                               fst (findByIdOrPublicIdAndUpdate (store_id st)
                                      (\<lambda>r. r\<lparr>is_updating_dashboard := False\<rparr>) (stores_coll db1))\<rparr>,
                    res_trace = tr @ [StoreUpdate]\<rparr>
               | Resumed v \<Rightarrow> persist env db1 st v tr))"

section \<open>Example data for the merger\<close>

definition row_email :: campaign_row where
  "row_email =
     \<lparr>groupings = \<lparr>send_channel = ''email'', campaign_id = ''c1'', campaign_message_id = ''cm1''\<rparr>,
      statistics = Some [(''opens'', JNum 5), (''open_rate'', JNum (1 / 4))],
      extra = Map.empty\<rparr>"

definition row_push :: campaign_row where
  "row_push =
     \<lparr>groupings = \<lparr>send_channel = ''push-notification'', campaign_id = ''c2'',
                    campaign_message_id = ''cm2''\<rparr>,
      statistics = Some [(''opens'', JNum 7)],
      extra = Map.empty\<rparr>"

definition row_sms :: campaign_row where
  "row_sms =
     \<lparr>groupings = \<lparr>send_channel = ''sms'', campaign_id = ''c3'', campaign_message_id = ''cm3''\<rparr>,
      statistics = None,
      extra = Map.empty\<rparr>"

definition campaign_rows :: "campaign_row list" where
  "campaign_rows = [row_email, row_push, row_sms]"

definition welcome_message :: message where
  "welcome_message =
     \<lparr>msg_id = Some ''m1'', msg_name = Some ''Welcome'', from_email = Some ''hi@shop.example'',
      from_label = None, subject_line = Some ''Hello'', preview_text = None,
      template_id = Some ''t1'', transactional = None, smart_sending_enabled = Some True\<rparr>"

definition welcome_definition :: flow_definition where
  "welcome_definition =
     \<lparr>actions = Some [\<lparr>a_type = Some ''send-email'',
                        a_data = Some \<lparr>ad_message = Some welcome_message,
                                       ad_main_action_message = None,
                                       ad_current_experiment = None,
                                       ad_experiment_status = None\<rparr>\<rparr>]\<rparr>"

definition flow_row_m1 :: flow_row where
  "flow_row_m1 =
     \<lparr>flow_groupings = \<lparr>flow_id = ''f1'', flow_message_id = ''m1'', flow_send_channel = ''email''\<rparr>,
      flow_statistics = Some (JObj [(''opens'', JArr [JNum 1, JNum 2])])\<rparr>"

definition flow_row_m2 :: flow_row where
  "flow_row_m2 =
     \<lparr>flow_groupings = \<lparr>flow_id = ''f2'', flow_message_id = ''m2'', flow_send_channel = ''email''\<rparr>,
      flow_statistics = Some (JObj [(''opens'', JArr [JNum 0, JNum 3])])\<rparr>"




section \<open>Example data for the sync\<close>

definition example_store :: store where
  "example_store =
     \<lparr>store_id = ''s1'', public_id = ''A'', last_dashboard_sync = DateAt 1000000,
      is_updating_dashboard = False, tagNames = [''vip''], flow_date_times = [86400000]\<rparr>"

definition example_db :: database where
  "example_db = \<lparr>stores_coll = [example_store], campaign_stats = [], flow_stats = []\<rparr>"

text \<open>The tags request is throttled; the sms campaigns request never settles.\<close>

definition failing_fanout :: fanout where
  "failing_fanout =
     \<lparr>f_campaigns = Fulfilled [],
      f_smsCampaigns = Pending,
      f_tags = Rejected (KlaviyoApiError 429 ''throttled''),
      f_flows = Fulfilled [],
      f_segments = Fulfilled [],
      f_lists = Fulfilled [],
      f_campaignValuesReports = Fulfilled campaign_rows,
      f_flowSeriesReports = Fulfilled \<lparr>report_results = [flow_row_m1, flow_row_m2],
                                       report_date_times = Some [172800000]\<rparr>\<rparr>"

definition example_env :: environment where
  "example_env =
     \<lparr>env_now = 2000000,
      env_fanout = failing_fanout,
      env_settle_order = [Flows, Tags],
      env_flow_fetch = (\<lambda>i. if i = ''f1'' then Some welcome_definition else None),
      env_flow_clock = (\<lambda>k. 1000 * int k),
      env_persist_time = 2000500,
      env_upsert_clock = (\<lambda>k. 2000600)\<rparr>"

definition locked_store :: store where
  "locked_store = example_store\<lparr>is_updating_dashboard := True\<rparr>"

definition never_synced_store :: store where
  "never_synced_store = example_store\<lparr>last_dashboard_sync := DateUnset\<rparr>"

text \<open>
  An account whose first sync, started with an explicit date, was cut off by a restart:
  never synced, and the flag still set.
\<close>

definition stuck_store :: store where
  "stuck_store = example_store\<lparr>last_dashboard_sync := DateUnset, is_updating_dashboard := True\<rparr>"

section \<open>Example data for the access-controlled search\<close>






section \<open>Access control of the search\<close>





section \<open>Page following\<close>

lemma endless_never_returns:
  assumes "klaviyoGetAll_loop get url ad ai fr = Some y" and "get = endless_upstream"
  shows "url = None"
  using assms
proof (induction arbitrary: rule: klaviyoGetAll_loop.raw_induct[rotated 1, consumes 1])
  case (1 loop get url ad ai fr y)
  show ?case
  proof (cases url)
    case None
    then show ?thesis by simp
  next
    case (Some u)
    define res where "res = projr (endless_upstream u)"
    have g: "get u = Inr res"
      using "1.prems" by (simp add: res_def endless_upstream_def)
    from "1.hyps" have "loop get (next_url res) (ad @ arr (data res)) (ai @ arr (included res))
        (case fr of None \<Rightarrow> Some res | Some f \<Rightarrow> Some f) = Some y"
      by (simp add: Some g)
    then have "next_url res = None"
      using "1.IH" "1.prems" by blast
    then show ?thesis
      by (simp add: res_def endless_upstream_def next_url_def)
  qed
qed

lemma loop_follows_chain:
  "pages_from get u ps \<Longrightarrow>
   klaviyoGetAll_loop get (Some u) ad ai fr =
     Some (Inr ((case fr of None \<Rightarrow> hd ps | Some f \<Rightarrow> f)
        \<lparr>data := Some (ad @ concat (map (\<lambda>p. arr (data p)) ps)),
         included := Some (ai @ concat (map (\<lambda>p. arr (included p)) ps))\<rparr>))"
proof (induction get u ps arbitrary: ad ai fr rule: pages_from.induct)
  case (1 get u)
  then show ?case by simp
next
  case (2 get u p)
  then show ?case
    by (subst klaviyoGetAll_loop.simps) (simp add: klaviyoGetAll_loop.simps split: option.splits)
next
  case (3 get u p q ps)
  from "3.prems" obtain u' where u': "get u = Inr p" "next_url p = Some u'" "pages_from get u' (q # ps)"
    by (auto split: option.splits)
  show ?case
    by (subst klaviyoGetAll_loop.simps) (simp add: u' "3.IH"[OF u'(2,3)] split: option.splits)
qed

text \<open>
  Claim C9, as the code has it. \<open>klaviyoGetAll\<close> has no cap on the number of pages and
  no pagination error: for a chain of pages of any length that ends in a page without a
  next link it returns, with the first page as the base and the \<open>data\<close> and
  \<open>included\<close> arrays of all pages concatenated in order.
\<close>

theorem klaviyoGetAll_follows_every_page:
  assumes "endpoint \<noteq> []" and "pages_from get endpoint ps"
  shows "klaviyoGetAll get endpoint =
     Some (Inr ((hd ps)\<lparr>data := Some (concat (map (\<lambda>p. arr (data p)) ps)),
                        included := Some (concat (map (\<lambda>p. arr (included p)) ps))\<rparr>))"
  using assms by (simp add: klaviyoGetAll_def loop_follows_chain)

theorem klaviyoGetAll_follows_every_page_witness:
  "''campaigns'' \<noteq> [] \<and> pages_from two_page_upstream ''campaigns'' [page_one, page_two]
   \<and> klaviyoGetAll two_page_upstream ''campaigns'' =
       Some (Inr \<lparr>data = Some [JStr ''c1'', JStr ''c2''], included = Some [JStr ''t1''],
                  links_next = Some ''https://a.klaviyo.com/api/campaigns?page=2''\<rparr>)"
proof -
  have e: "''campaigns'' \<noteq> []" by simp
  have h: "pages_from two_page_upstream ''campaigns'' [page_one, page_two]"
    by (simp add: two_page_upstream_def page_one_def page_two_def next_url_def)
  show ?thesis
    using e h klaviyoGetAll_follows_every_page [OF e h]
    by (simp add: page_one_def page_two_def arr_def)
qed

text \<open>
  Claim C9, as the specification states it, fails: against an upstream whose every page
  links to a next page the call never returns, with a pagination error or otherwise.
\<close>

theorem klaviyoGetAll_endless_counterexample:
  "klaviyoGetAll endless_upstream ''campaigns'' = None"
proof (cases "klaviyoGetAll endless_upstream ''campaigns''")
  case None
  then show ?thesis .
next
  case (Some y)
  then have "Some ''campaigns'' = None"
    unfolding klaviyoGetAll_def using endless_never_returns by fastforce
  then show ?thesis by simp
qed

section \<open>The rate-limited fetcher\<close>

declare getFlowDefinitions_loop.simps [simp del]

lemma getFlowDefinitions_loop_step:
  "i < length flowIds \<Longrightarrow>
   getFlowDefinitions_loop fetch clock flowIds i k totalRequests run =
     getFlowDefinitions_loop fetch clock
       (requeue flowIds i (effectiveBatchSize (clock k) totalRequests (length (take batchSize (drop i flowIds)))))
       (i + batchSize) (Suc k)
       (totalRequests + length (take (effectiveBatchSize (clock k) totalRequests (length (take batchSize (drop i flowIds))))
                                  (take batchSize (drop i flowIds))))
       \<lparr>attempted = attempted run @ take (effectiveBatchSize (clock k) totalRequests (length (take batchSize (drop i flowIds))))
                                  (take batchSize (drop i flowIds)),
        fetched = fetched run @ List.map_filter fetch
                    (take (effectiveBatchSize (clock k) totalRequests (length (take batchSize (drop i flowIds))))
                          (take batchSize (drop i flowIds)))\<rparr>"
  by (subst getFlowDefinitions_loop.simps) (simp only: Let_def if_True)

lemma getFlowDefinitions_loop_done:
  "\<not> i < length flowIds \<Longrightarrow>
   getFlowDefinitions_loop fetch clock flowIds i k totalRequests run = run"
  by (subst getFlowDefinitions_loop.simps) simp

lemma map_filter_append: "List.map_filter f (xs @ ys) = List.map_filter f xs @ List.map_filter f ys"
  by (simp add: List.map_filter_def)

text \<open>Whatever the clock, the result holds what the attempted ids fetched, in order.\<close>

lemma getFlowDefinitions_loop_fetched:
  "fetched run = List.map_filter fetch (attempted run) \<Longrightarrow>
   fetched (getFlowDefinitions_loop fetch clock flowIds i k totalRequests run)
     = List.map_filter fetch
         (attempted (getFlowDefinitions_loop fetch clock flowIds i k totalRequests run))"
proof (induction fetch clock flowIds i k totalRequests run rule: getFlowDefinitions_loop.induct)
  case (1 fetch clock flowIds i k totalRequests run)
  show ?case
  proof (cases "i < length flowIds")
    case True
    show ?thesis
      unfolding getFlowDefinitions_loop_step[OF True]
      by (rule "1.IH"[OF True refl refl refl]) (simp add: "1.prems" map_filter_append)
  next
    case False
    with "1.prems" show ?thesis by (simp add: getFlowDefinitions_loop_done)
  qed
qed

lemma getFlowDefinitions_fetched:
  "fetched (getFlowDefinitions fetch clock flowIds)
     = List.map_filter fetch (attempted (getFlowDefinitions fetch clock flowIds))"
  unfolding getFlowDefinitions_def
  by (rule getFlowDefinitions_loop_fetched) (simp add: List.map_filter_def)

lemma effectiveBatchSize_pos: "0 < n \<Longrightarrow> 0 < effectiveBatchSize ms t n"
  by (auto simp: effectiveBatchSize_def)

lemma requeue_whole:
  "\<not> e < length (take batchSize (drop i flowIds)) \<Longrightarrow> requeue flowIds i e = flowIds"
  unfolding requeue_def Let_def by (simp only: if_False)

lemma requeue_cut:
  "e < length (take batchSize (drop i flowIds)) \<Longrightarrow>
   requeue flowIds i e
     = take (i + e) flowIds @ drop e (take batchSize (drop i flowIds)) @ drop (i + e) flowIds"
  unfolding requeue_def Let_def by (simp only: if_True)

text \<open>The loop goes on after a batch only if that batch was a full one.\<close>

lemma requeue_continues_full:
  assumes "0 < e" and "i + batchSize < length (requeue flowIds i e)"
  shows "i + batchSize \<le> length flowIds"
proof (cases "e < length (take batchSize (drop i flowIds))")
  case False
  then have "requeue flowIds i e = flowIds" by (rule requeue_whole)
  with assms(2) show ?thesis by simp
next
  case True
  have cut: "requeue flowIds i e
     = take (i + e) flowIds @ drop e (take batchSize (drop i flowIds)) @ drop (i + e) flowIds"
    using True by (rule requeue_cut)
  from True have e3: "e < batchSize" and ei: "e < length flowIds - i" by simp_all
  show ?thesis
  proof (rule ccontr)
    assume short: "\<not> i + batchSize \<le> length flowIds"
    then have "length (take batchSize (drop i flowIds)) = length flowIds - i" by simp
    then have "length (requeue flowIds i e) = (i + e) + (length flowIds - i - e) + (length flowIds - (i + e))"
      using ei by (simp add: cut min_def)
    with short assms(1) e3 have "length (requeue flowIds i e) \<le> i + batchSize"
      by (simp add: batchSize_def)
    with assms(2) show False by simp
  qed
qed

lemma requeue_rest:
  assumes "0 < e" and "i + batchSize < length (requeue flowIds i e)"
  shows "drop (i + batchSize) (requeue flowIds i e) = drop (min e batchSize) (drop i flowIds)"
proof -
  have full: "i + batchSize \<le> length flowIds"
    using assms by (rule requeue_continues_full)
  then have lb: "length (take batchSize (drop i flowIds)) = batchSize" by simp
  show ?thesis
  proof (cases "e < batchSize")
    case False
    then have "\<not> e < length (take batchSize (drop i flowIds))" unfolding lb .
    then have same: "requeue flowIds i e = flowIds" by (rule requeue_whole)
    from False have "min e batchSize = batchSize" by (simp add: min_def)
    then show ?thesis
      by (simp only: same drop_drop add.commute)
  next
    case True
    then have "e < length (take batchSize (drop i flowIds))" unfolding lb .
    then have cut: "requeue flowIds i e
       = take (i + e) flowIds @ drop e (take batchSize (drop i flowIds)) @ drop (i + e) flowIds"
      by (rule requeue_cut)
    have l1: "length (take (i + e) flowIds) = i + e"
      using full True by simp
    have l2: "length (drop e (take batchSize (drop i flowIds))) = batchSize - e"
      using full by simp
    have "drop (i + batchSize) (requeue flowIds i e) = drop (i + e) flowIds"
      unfolding cut using l1 l2 True by simp
    moreover from True have "min e batchSize = e" by (simp add: min_def)
    ultimately show ?thesis
      by (simp only: drop_drop add.commute)
  qed
qed

lemma take_take_drop: "take m (take n (drop a xs)) = take (min m n) (drop a xs)"
  by (simp add: min.commute)

lemma getFlowDefinitions_loop_prefix:
  assumes "attempted run = take a ids"
    and "i < length flowIds \<longrightarrow> drop i flowIds = drop a ids"
  shows "\<exists>n. attempted (getFlowDefinitions_loop fetch clock flowIds i k totalRequests run) = take n ids"
  using assms
proof (induction fetch clock flowIds i k totalRequests run arbitrary: a
        rule: getFlowDefinitions_loop.induct)
  case (1 fetch clock flowIds i k totalRequests run)
  show ?case
  proof (cases "i < length flowIds")
    case False
    then have "getFlowDefinitions_loop fetch clock flowIds i k totalRequests run = run"
      by (rule getFlowDefinitions_loop_done)
    with "1.prems"(1) show ?thesis by auto
  next
    case True
    define batch where "batch = take batchSize (drop i flowIds)"
    define e where "e = effectiveBatchSize (clock k) totalRequests (length batch)"
    define actualBatch where "actualBatch = take e batch"
    define a' where "a' = a + min e batchSize"
    have "0 < length batch"
      using True by (simp add: batch_def batchSize_def)
    then have epos: "0 < e"
      unfolding e_def by (rule effectiveBatchSize_pos)
    have rest: "drop i flowIds = drop a ids"
      using True "1.prems"(2) by simp
    have actual: "actualBatch = take (min e batchSize) (drop a ids)"
      unfolding actualBatch_def batch_def rest by (rule take_take_drop)
    have att: "attempted run @ actualBatch = take a' ids"
      unfolding actual "1.prems"(1) a'_def by (simp add: take_add)
    have next_rest: "i + batchSize < length (requeue flowIds i e) \<longrightarrow>
        drop (i + batchSize) (requeue flowIds i e) = drop a' ids"
    proof
      assume more: "i + batchSize < length (requeue flowIds i e)"
      show "drop (i + batchSize) (requeue flowIds i e) = drop a' ids"
        unfolding requeue_rest[OF epos more] rest a'_def by (simp add: add.commute)
    qed
    have "\<exists>n. attempted (getFlowDefinitions_loop fetch clock (requeue flowIds i e) (i + batchSize) (Suc k)
              (totalRequests + length actualBatch)
              \<lparr>attempted = attempted run @ actualBatch,
               fetched = fetched run @ List.map_filter fetch actualBatch\<rparr>) = take n ids"
      by (rule "1.IH"[OF True batch_def e_def actualBatch_def, of a']) (simp_all add: att next_rest)
    then show ?thesis
      unfolding getFlowDefinitions_loop_step[OF True] batch_def e_def actualBatch_def .
  qed
qed

text \<open>The ids are attempted in the order of the list, none twice: only its tail can be lost.\<close>

lemma getFlowDefinitions_attempts_a_prefix:
  "\<exists>n. attempted (getFlowDefinitions fetch clock flowIds) = take n flowIds"
  unfolding getFlowDefinitions_def
  by (rule getFlowDefinitions_loop_prefix[of _ 0]) simp_all

lemmas fetcher_example_defs =
  getFlowDefinitions_loop.simps getFlowDefinitions_def five_ids_def one_second_per_batch_def Let_def batchSize_def
  effectiveBatchSize_def burstLimit_def elapsedSeconds_def requeue_def

text \<open>
  Claim C1. On five ids, with every fetch succeeding and the second batch starting one
  second after the first, the second batch \<open>[f4, f5]\<close> is cut to one request. The
  splice puts a copy of \<open>f5\<close> at index 4, which makes the list six long, and the
  loop index moves from 3 to 6: \<open>f5\<close> is never handed to
  \<open>getFlowDefinition\<close> and is missing from the result.
\<close>

theorem getFlowDefinitions_skips_requeued_id:
  "attempted (getFlowDefinitions Some one_second_per_batch five_ids) = [''f1'', ''f2'', ''f3'', ''f4'']
   \<and> fetched (getFlowDefinitions Some one_second_per_batch five_ids) = [''f1'', ''f2'', ''f3'', ''f4'']
   \<and> ''f5'' \<in> set five_ids
   \<and> ''f5'' \<notin> set (attempted (getFlowDefinitions Some one_second_per_batch five_ids))"
  by (simp add: fetcher_example_defs)

section \<open>The merger\<close>





lemma groupings_mergeCampaignRow:
  "mergeCampaignRow cm tm am r ''groupings'' = Some (JObj (groupings_object (groupings r)))"
  by (simp add: mergeCampaignRow_def Let_def row_object_def map_add_def split: option.splits)

lemma channel_of_mergeCampaignRow:
  "channel_of (mergeCampaignRow cm tm am r) = Some (send_channel (groupings r))"
  by (simp add: channel_of_def groupings_mergeCampaignRow groupings_object_def)

text \<open>
  Claim C6. The merged records are, in order, one for each row whose send channel is
  \<open>email\<close> or \<open>sms\<close>, each carrying the groupings of its row; no record has
  another channel.
\<close>

theorem campaign_merge_keeps_email_and_sms:
  "map (\<lambda>rec. rec ''groupings'')
       (mergeCampaignStatsWithMeta rows campaigns smsCampaigns segments lists' tags)
     = map (\<lambda>r. Some (JObj (groupings_object (groupings r)))) (filter is_email_or_sms rows)
   \<and> (\<forall>rec \<in> set (mergeCampaignStatsWithMeta rows campaigns smsCampaigns segments lists' tags).
         channel_of rec = Some ''email'' \<or> channel_of rec = Some ''sms'')"
  unfolding mergeCampaignStatsWithMeta_def Let_def
  by (auto simp: groupings_mergeCampaignRow channel_of_mergeCampaignRow is_email_or_sms_def)


















lemmas campaign_example_defs =
  campaign_rows_def row_email_def row_push_def row_sms_def is_email_or_sms_def

lemma kept_rows: "filter is_email_or_sms campaign_rows = [row_email, row_sms]"
  by (simp add: campaign_example_defs)


theorem campaign_merge_keeps_email_and_sms_witness:
  "map (\<lambda>rec. rec ''groupings'') (mergeCampaignStatsWithMeta campaign_rows [] [] [] [] [])
     = [Some (JObj (groupings_object (groupings row_email))),
        Some (JObj (groupings_object (groupings row_sms)))]
   \<and> mergeCampaignStatsWithMeta campaign_rows [] [] [] [] [] ! 1
        \<in> set (mergeCampaignStatsWithMeta campaign_rows [] [] [] [] [])
   \<and> (channel_of (mergeCampaignStatsWithMeta campaign_rows [] [] [] [] [] ! 1) = Some ''email''
      \<or> channel_of (mergeCampaignStatsWithMeta campaign_rows [] [] [] [] [] ! 1) = Some ''sms'')"
proof -
  note all = campaign_merge_keeps_email_and_sms [of campaign_rows "[]" "[]" "[]" "[]" "[]"]
  from all have g: "map (\<lambda>rec. rec ''groupings'') (mergeCampaignStatsWithMeta campaign_rows [] [] [] [] [])
     = [Some (JObj (groupings_object (groupings row_email))),
        Some (JObj (groupings_object (groupings row_sms)))]"
    by (simp add: kept_rows)
  then have "length (mergeCampaignStatsWithMeta campaign_rows [] [] [] [] []) = 2"
    using length_map[of "\<lambda>rec. rec ''groupings''" "mergeCampaignStatsWithMeta campaign_rows [] [] [] [] []"]
    by simp
  then have m: "mergeCampaignStatsWithMeta campaign_rows [] [] [] [] [] ! 1
        \<in> set (mergeCampaignStatsWithMeta campaign_rows [] [] [] [] [])"
    by simp
  with all g show ?thesis by blast
qed




section \<open>Persistence\<close>

lemma overlay_Nil [simp]: "overlay [] d = d"
  by (simp add: overlay_def)

lemma overlay_Cons [simp]: "overlay ((K, u) # ops) d = overlay ops (d ++ u)"
  by (simp add: overlay_def)

lemma upsertAll_Nil [simp]: "upsertAll key [] coll = coll"
  by (simp add: upsertAll_def)

lemma upsertAll_Cons [simp]:
  "upsertAll key ((K, u) # ops) coll = upsertAll key ops (updateOne (\<lambda>d. key d = K) u coll)"
  by (simp add: upsertAll_def)





























section \<open>The sync orchestrator\<close>

lemmas sync_example_defs =
  example_env_def example_db_def example_store_def failing_fanout_def locked_store_def
  never_synced_store_def stuck_store_def FRESHNESS_THRESHOLD_MS_def lastSync_of_def

text \<open>
  Claim C3. When the account's flag is set, or its last sync is less than the freshness
  threshold before the current time, \<open>klaviyoUpdateStats\<close> returns the account it was
  given, leaves the database as it is, and does nothing to the outside: no upstream
  request and no write.
\<close>

theorem fresh_or_locked_sync_is_noop:
  assumes "is_updating_dashboard st
           \<or> env_now env - lastSync_of st < FRESHNESS_THRESHOLD_MS"
  shows "klaviyoUpdateStats env db0 st date
           = \<lparr>res_outcome = Returned (Some st), res_db = db0, res_trace = []\<rparr>"
  using assms by (auto simp: klaviyoUpdateStats_def)

theorem fresh_or_locked_sync_is_noop_witness:
  "is_updating_dashboard locked_store
   \<and> klaviyoUpdateStats example_env example_db locked_store None
       = \<lparr>res_outcome = Returned (Some locked_store), res_db = example_db, res_trace = []\<rparr>
   \<and> \<not> is_updating_dashboard example_store
   \<and> env_now (example_env\<lparr>env_now := 1030000\<rparr>) - lastSync_of example_store
       < FRESHNESS_THRESHOLD_MS
   \<and> klaviyoUpdateStats (example_env\<lparr>env_now := 1030000\<rparr>) example_db example_store None
       = \<lparr>res_outcome = Returned (Some example_store), res_db = example_db, res_trace = []\<rparr>"
proof -
  have l: "is_updating_dashboard locked_store"
    by (simp add: sync_example_defs)
  have f: "env_now (example_env\<lparr>env_now := 1030000\<rparr>) - lastSync_of example_store
           < FRESHNESS_THRESHOLD_MS"
    by (simp add: sync_example_defs)
  have n: "\<not> is_updating_dashboard example_store"
    by (simp add: sync_example_defs)
  show ?thesis
    using l n f
      fresh_or_locked_sync_is_noop [of locked_store example_env example_db None, OF disjI1, OF l]
      fresh_or_locked_sync_is_noop [of example_store "example_env\<lparr>env_now := 1030000\<rparr>" example_db None,
        OF disjI2, OF f]
    by simp
qed

text \<open>
  Claim C10, as the code has it. For an account that was never synced, whose flag is not
  set, called without a date (and with the clock at least the threshold past the epoch,
  so that the freshness gate lets it through), \<open>new Date(undefined).toISOString()\<close>
  throws before the flag is set and before any request: the database is as it was.
\<close>

theorem never_synced_without_date_throws:
  assumes "last_dashboard_sync st = DateUnset" and "date = None"
    and "\<not> is_updating_dashboard st" and "FRESHNESS_THRESHOLD_MS \<le> env_now env"
  shows "klaviyoUpdateStats env db0 st date
           = \<lparr>res_outcome = Threw RangeError, res_db = db0, res_trace = []\<rparr>"
  using assms by (simp add: klaviyoUpdateStats_def lastSync_of_def fromDate_of_def)

theorem never_synced_without_date_throws_witness:
  "last_dashboard_sync never_synced_store = DateUnset
   \<and> \<not> is_updating_dashboard never_synced_store
   \<and> FRESHNESS_THRESHOLD_MS \<le> env_now example_env
   \<and> klaviyoUpdateStats example_env example_db never_synced_store None
       = \<lparr>res_outcome = Threw RangeError, res_db = example_db, res_trace = []\<rparr>"
proof -
  have a: "last_dashboard_sync never_synced_store = DateUnset"
    and b: "\<not> is_updating_dashboard never_synced_store"
    and c: "FRESHNESS_THRESHOLD_MS \<le> env_now example_env"
    by (simp_all add: sync_example_defs)
  show ?thesis
    using a b c never_synced_without_date_throws [OF a refl b c, of example_db]
    by simp
qed

text \<open>
  Claim C10, as stated for every never-synced account, fails where the flag is set: the
  gate returns the account and nothing is thrown.
\<close>

theorem never_synced_locked_counterexample:
  "last_dashboard_sync stuck_store = DateUnset
   \<and> res_outcome (klaviyoUpdateStats example_env example_db stuck_store None)
       = Returned (Some stuck_store)
   \<and> res_outcome (klaviyoUpdateStats example_env example_db stuck_store None) \<noteq> Threw RangeError"
  by (simp add: klaviyoUpdateStats_def sync_example_defs)

lemma update_first_twice:
  assumes "\<And>x. p x \<Longrightarrow> p (f x)"
  shows "update_first p g (update_first p f xs) = update_first p (g \<circ> f) xs"
  using assms by (induction xs) auto

lemma set_update_first:
  assumes "\<And>x. q (f x) = q x"
  shows "(\<exists>x \<in> set (update_first p f xs). q x) = (\<exists>x \<in> set xs. q x)"
  using assms by (induction xs) auto

lemma map_update_first:
  assumes "\<And>x. g (f x) = g x"
  shows "map g (update_first p f xs) = map g xs"
  using assms by (induction xs) auto

lemma find_update_first:
  assumes "\<And>x. p (f x) = p x"
  shows "find p (update_first p f xs) = map_option f (find p xs)"
  using assms by (induction xs) auto

lemma clear_after_set:
  "fst (findByIdOrPublicIdAndUpdate i (\<lambda>r. r\<lparr>is_updating_dashboard := False\<rparr>)
          (fst (findByIdOrPublicIdAndUpdate i (\<lambda>r. r\<lparr>is_updating_dashboard := True\<rparr>) rows)))
   = fst (findByIdOrPublicIdAndUpdate i (\<lambda>r. r\<lparr>is_updating_dashboard := False\<rparr>) rows)"
proof -
  let ?s = "\<lambda>r. r\<lparr>is_updating_dashboard := True\<rparr>" and ?c = "\<lambda>r. r\<lparr>is_updating_dashboard := False\<rparr>"
  have c: "?c \<circ> ?s = ?c" by (rule ext) simp
  show ?thesis
  proof (cases "\<exists>r \<in> set rows. store_id r = i")
    case True
    then have "\<exists>r \<in> set (update_first (\<lambda>r. store_id r = i) ?s rows). store_id r = i"
      by (subst set_update_first) simp_all
    with True show ?thesis
      by (simp add: findByIdOrPublicIdAndUpdate_def update_first_twice c)
  next
    case False
    then have "\<not> (\<exists>r \<in> set (update_first (\<lambda>r. public_id r = i) ?s rows). store_id r = i)"
      by (subst set_update_first) simp_all
    with False show ?thesis
      by (simp add: findByIdOrPublicIdAndUpdate_def update_first_twice c)
  qed
qed

text \<open>After the flag is cleared the account's row has it false, and nothing else differs.\<close>

lemma cleared_row:
  "(case find (\<lambda>r. store_id r = i)
           (fst (findByIdOrPublicIdAndUpdate i (\<lambda>r. r\<lparr>is_updating_dashboard := False\<rparr>) rows)) of
      None \<Rightarrow> True
    | Some r \<Rightarrow> \<not> is_updating_dashboard r)"
proof (cases "\<exists>r \<in> set rows. store_id r = i")
  case True
  then show ?thesis
    by (simp add: findByIdOrPublicIdAndUpdate_def find_update_first split: option.splits)
next
  case False
  then have "\<not> (\<exists>r \<in> set (update_first (\<lambda>r. public_id r = i)
                 (\<lambda>r. r\<lparr>is_updating_dashboard := False\<rparr>) rows). store_id r = i)"
    by (subst set_update_first) simp_all
  then have "find (\<lambda>r. store_id r = i) (update_first (\<lambda>r. public_id r = i)
                 (\<lambda>r. r\<lparr>is_updating_dashboard := False\<rparr>) rows) = None"
    by (simp add: find_None_iff)
  with False show ?thesis
    by (simp add: findByIdOrPublicIdAndUpdate_def)
qed

lemma cleared_rows_keep:
  assumes "\<And>r. g (r\<lparr>is_updating_dashboard := False\<rparr>) = g r"
  shows "map g (fst (findByIdOrPublicIdAndUpdate i (\<lambda>r. r\<lparr>is_updating_dashboard := False\<rparr>) rows))
         = map g rows"
  using assms by (simp add: findByIdOrPublicIdAndUpdate_def map_update_first)

lemma in_all_fetches: "i \<in> set all_fetches"
  by (cases i) (simp_all add: all_fetches_def)

lemma promise_all_rejected:
  assumes "rejection fo i \<noteq> None"
  shows "\<exists>e j. promise_all fo order = Thrown e \<and> rejection fo j = Some e"
proof -
  let ?rs = "List.map_filter (rejection fo) (order @ all_fetches)"
  from assms obtain e where "rejection fo i = Some e" by auto
  with in_all_fetches[of i] have "e \<in> set ?rs"
    by (force simp: List.map_filter_def)
  then obtain e' rest where rs: "?rs = e' # rest"
    by (cases ?rs) auto
  then have "e' \<in> set ?rs" by simp
  then obtain j where "rejection fo j = Some e'"
    by (auto simp: List.map_filter_def)
  with rs show ?thesis
    by (auto simp: promise_all_def)
qed

text \<open>
  Claim C2. In a sync that reaches the fan-out (the gate is passed and the from-date is
  there), if any of the eight requests is rejected, whatever the others do, the call
  throws the error of a rejected request. The database afterwards is the database before
  with the flag of the account's row cleared: no campaign or flow record is written, and
  no row's \<open>last_dashboard_sync\<close>, \<open>tagNames\<close> or \<open>flow_date_times\<close> changes.
\<close>

theorem failed_fetch_aborts_sync:
  assumes gate: "\<not> is_updating_dashboard st"
      "\<not> env_now env - lastSync_of st < FRESHNESS_THRESHOLD_MS"
    and from_date: "date \<noteq> None \<or> last_dashboard_sync st \<noteq> DateUnset"
    and failed: "rejection (env_fanout env) i \<noteq> None"
  shows "\<exists>e j. rejection (env_fanout env) j = Some e
           \<and> res_outcome (klaviyoUpdateStats env db0 st date) = Threw e
           \<and> res_db (klaviyoUpdateStats env db0 st date)
               = db0\<lparr>stores_coll :=
                       fst (findByIdOrPublicIdAndUpdate (store_id st)
                              (\<lambda>r. r\<lparr>is_updating_dashboard := False\<rparr>) (stores_coll db0))\<rparr>
           \<and> (case find (\<lambda>r. store_id r = store_id st)
                      (stores_coll (res_db (klaviyoUpdateStats env db0 st date))) of
                 None \<Rightarrow> True
               | Some r \<Rightarrow> \<not> is_updating_dashboard r)
           \<and> campaign_stats (res_db (klaviyoUpdateStats env db0 st date)) = campaign_stats db0
           \<and> flow_stats (res_db (klaviyoUpdateStats env db0 st date)) = flow_stats db0
           \<and> map last_dashboard_sync (stores_coll (res_db (klaviyoUpdateStats env db0 st date)))
               = map last_dashboard_sync (stores_coll db0)
           \<and> map tagNames (stores_coll (res_db (klaviyoUpdateStats env db0 st date)))
               = map tagNames (stores_coll db0)
           \<and> map flow_date_times (stores_coll (res_db (klaviyoUpdateStats env db0 st date)))
               = map flow_date_times (stores_coll db0)"
proof -
  from promise_all_rejected[OF failed, of "env_settle_order env"]
  obtain e j where t: "promise_all (env_fanout env) (env_settle_order env) = Thrown e"
    and j: "rejection (env_fanout env) j = Some e"
    by blast
  from from_date obtain fromDate where fd: "fromDate_of st date = Inr fromDate"
    by (cases date; cases "last_dashboard_sync st") (auto simp: fromDate_of_def)
  let ?R = "klaviyoUpdateStats env db0 st date"
  let ?rows = "fst (findByIdOrPublicIdAndUpdate (store_id st)
                      (\<lambda>r. r\<lparr>is_updating_dashboard := False\<rparr>) (stores_coll db0))"
  have out: "res_outcome ?R = Threw e"
    using gate fd t by (simp add: klaviyoUpdateStats_def Let_def)
  have db: "res_db ?R = db0\<lparr>stores_coll := ?rows\<rparr>"
    using gate fd t by (simp add: klaviyoUpdateStats_def Let_def clear_after_set)
  have flag: "(case find (\<lambda>r. store_id r = store_id st) (stores_coll (res_db ?R)) of
                 None \<Rightarrow> True | Some r \<Rightarrow> \<not> is_updating_dashboard r)"
    unfolding db using cleared_row[of "store_id st" "stores_coll db0"] by simp
  have keep: "map last_dashboard_sync (stores_coll (res_db ?R)) = map last_dashboard_sync (stores_coll db0)"
    "map tagNames (stores_coll (res_db ?R)) = map tagNames (stores_coll db0)"
    "map flow_date_times (stores_coll (res_db ?R)) = map flow_date_times (stores_coll db0)"
    unfolding db by (simp_all add: cleared_rows_keep)
  have stats: "campaign_stats (res_db ?R) = campaign_stats db0" "flow_stats (res_db ?R) = flow_stats db0"
    unfolding db by simp_all
  from j out db flag stats keep show ?thesis by blast
qed

theorem failed_fetch_aborts_sync_witness:
  "\<not> is_updating_dashboard example_store
   \<and> \<not> env_now example_env - lastSync_of example_store < FRESHNESS_THRESHOLD_MS
   \<and> last_dashboard_sync example_store \<noteq> DateUnset
   \<and> rejection (env_fanout example_env) Tags \<noteq> None
   \<and> res_outcome (klaviyoUpdateStats example_env example_db example_store None)
       = Threw (KlaviyoApiError 429 ''throttled'')
   \<and> res_db (klaviyoUpdateStats example_env example_db example_store None) = example_db"
proof -
  have g1: "\<not> is_updating_dashboard example_store"
    and g2: "\<not> env_now example_env - lastSync_of example_store < FRESHNESS_THRESHOLD_MS"
    and fd: "None \<noteq> None \<or> last_dashboard_sync example_store \<noteq> DateUnset"
    and r: "rejection (env_fanout example_env) Tags \<noteq> None"
    by (simp_all add: sync_example_defs rejected_with_def lastSync_of_def)
  have only: "e = KlaviyoApiError 429 ''throttled''"
    if "rejection (env_fanout example_env) j = Some e" for j e
    using that by (cases j) (simp_all add: sync_example_defs rejected_with_def)
  have same: "example_db\<lparr>stores_coll :=
                 fst (findByIdOrPublicIdAndUpdate (store_id example_store)
                        (\<lambda>r. r\<lparr>is_updating_dashboard := False\<rparr>) (stores_coll example_db))\<rparr>
              = example_db"
    by (simp add: sync_example_defs findByIdOrPublicIdAndUpdate_def)
  from failed_fetch_aborts_sync [OF g1 g2 fd r, of example_db]
  obtain e j where "rejection (env_fanout example_env) j = Some e"
    and "res_outcome (klaviyoUpdateStats example_env example_db example_store None) = Threw e"
    and "res_db (klaviyoUpdateStats example_env example_db example_store None)
          = example_db\<lparr>stores_coll :=
                 fst (findByIdOrPublicIdAndUpdate (store_id example_store)
                        (\<lambda>r. r\<lparr>is_updating_dashboard := False\<rparr>) (stores_coll example_db))\<rparr>"
    by blast
  with only same g1 g2 r show ?thesis
    by (simp add: example_store_def)
qed

end
